theory Spec2Isabelle
  imports Main
begin

section \<open>The Python binding of Gaffer's Expression node and of its engines\<close>

text \<open>
  The file \<^verbatim>\<open>src/GafferBindings/ExpressionBinding.cpp\<close> adapts the C++ class
  \<^verbatim>\<open>Gaffer::Expression\<close> and its nested \<^verbatim>\<open>Expression::Engine\<close> to Python. An
  engine written in Python is reached through \<^verbatim>\<open>EngineWrapper\<close>, whose three virtual
  methods look the Python method up, call it, convert what it produced and turn a Python
  error into a C++ exception.

  Conventions of the embedding:
  \<^item> a C++ pointer is the address it holds, a natural number;
  \<^item> a C++ function that may throw returns \<open>cpp_exception + 'a\<close>, with \<open>Inl\<close> the
    exception; arguments passed by non-const reference are returned updated next to the
    outcome, also when the outcome is an exception, since what was written before the
    throw stays written;
  \<^item> a Python callable is a function of the state \<open>'w\<close> of everything it can reach (the
    interpreter, the graph, the context); it returns that state next to its outcome, which
    is either the Python exception it raised or its result;
  \<^item> the values of Python are of a type \<open>'o\<close>, and the converters that boost::python looks
    up in its registry, which are not part of the file, are parameters;
  \<^item> the embedding is sequential, of one thread. The interpreter lock that the engine
    methods and the factory take (\<^verbatim>\<open>ScopedGILLock\<close>) and that \<^verbatim>\<open>setExpression\<close>
    releases (\<^verbatim>\<open>ScopedGILRelease\<close>) changes no result: the definitions leave it out at
    first, and the subsection on the interpreter lock adds it as a flag of the state of
    the calling thread.
\<close>

subsection \<open>Values and exceptions\<close>

type_synonym Expression_ptr = nat
type_synonym ValuePlug_ptr = nat
type_synonym Context_ptr = nat
type_synonym Object_ptr = nat
type_synonym InternedString = string
type_synonym ObjectVector = "Object_ptr list"

text \<open>A Python exception: the name of its type and its message.\<close>

datatype py_exception = PyException (py_type: string) (py_message: string)

text \<open>
  The C++ exceptions of the file: \<^verbatim>\<open>IECore::Exception\<close> with its message, and
  boost::python's \<^verbatim>\<open>error_already_set\<close>, which says that the interpreter's error
  indicator holds a Python exception (carried here with it). The third is not thrown by
  the file: it is the error kind the specification gives to the lookup of a language
  that was never registered, thrown by the core.
\<close>

datatype cpp_exception =
    IECore_Exception (what: string)
  | error_already_set py_exception
  | UnknownLanguage string

type_synonym ('a, 'w) py_call = "'w \<Rightarrow> (py_exception + 'a) \<times> 'w"

text \<open>
  How a block of statements ends: with a \<^verbatim>\<open>return\<close>, with a \<^verbatim>\<open>throw\<close>, or by
  running to its end.
\<close>

datatype 'a control = Return 'a | Throw cpp_exception | Fallthrough

subsection \<open>The engine object\<close>

text \<open>
  \<^verbatim>\<open>isSubclassed()\<close> says whether the Python object is an instance of a class derived in
  Python; \<^verbatim>\<open>methodOverride( name )\<close> is the method of that name, and tests false when
  there is none (\<open>None\<close> here). The \<^verbatim>\<open>parse\<close> method receives three empty lists and
  fills them: its result here is what the three lists hold when it returns.
\<close>

record ('w, 'o) EngineWrapper =
  isSubclassed :: bool
  methodOverride_parse ::
    "(Expression_ptr \<Rightarrow> string \<Rightarrow> ('o list \<times> 'o list \<times> 'o list, 'w) py_call) option"
  methodOverride_execute ::
    "(Context_ptr \<Rightarrow> ValuePlug_ptr list \<Rightarrow> ('o, 'w) py_call) option"
  methodOverride_apply ::
    "(ValuePlug_ptr \<Rightarrow> Object_ptr \<Rightarrow> (unit, 'w) py_call) option"

text \<open>
  The from-Python conversions the file asks boost::python for. \<^verbatim>\<open>extract<T>\<close> used as
  a value raises the Python exception of the failed conversion; inside
  \<^verbatim>\<open>extend_container\<close> only its \<^verbatim>\<open>check()\<close> is asked.
\<close>

record ('w, 'o) converters =
  extract_ValuePlug :: "'o \<Rightarrow> ValuePlug_ptr option"
  extract_InternedString :: "'o \<Rightarrow> InternedString option"
  extract_ConstObjectVectorPtr :: "'o \<Rightarrow> py_exception + ObjectVector"
  extract_EnginePtr :: "'o \<Rightarrow> py_exception + ('w, 'o) EngineWrapper"

text \<open>
  \<^verbatim>\<open>boost::python::container_utils::extend_container( container, l )\<close>: it walks the
  Python sequence and pushes each element, converted, at the back of the container; at
  the first element that does not convert it sets a \<^verbatim>\<open>TypeError\<close> and throws, leaving
  in the container what it had pushed.
\<close>

fun extend_container ::
  "('o \<Rightarrow> 'a option) \<Rightarrow> 'a list \<Rightarrow> 'o list \<Rightarrow> (cpp_exception + unit) \<times> 'a list" where
  "extend_container extract container [] = (Inr (), container)"
| "extend_container extract container (elem # l) =
     (case extract elem of
        Some x \<Rightarrow> extend_container extract (container @ [x]) l
      | None \<Rightarrow>
          (Inl (error_already_set (PyException ''TypeError'' ''Incompatible Data Type'')),
           container))"

text \<open>
  Modelled from the spec: \<^verbatim>\<open>translatePythonException()\<close> is declared in
  \<^verbatim>\<open>GafferBindings/ExceptionAlgo.h\<close>, which the file includes, and defined outside it.
  The specification has a foreign exception translated at the boundary into an error of
  the core, preserving the original message: the call never returns, it throws an
  \<^verbatim>\<open>IECore::Exception\<close> with the message of the Python exception.
\<close>

definition translatePythonException :: "py_exception \<Rightarrow> 'a control" where
  "translatePythonException e = Throw (IECore_Exception (py_message e))"

text \<open>
  The handler \<^verbatim>\<open>catch( const error_already_set &e ) { translatePythonException(); }\<close>
  that closes the \<^verbatim>\<open>try\<close> block of the three methods: any other exception passes.
\<close>

definition catch_error_already_set :: "'a control \<Rightarrow> 'a control" where
  "catch_error_already_set r =
     (case r of
        Throw (error_already_set e) \<Rightarrow> translatePythonException e
      | _ \<Rightarrow> r)"

subsection \<open>EngineWrapper::parse\<close>

text \<open>The three vectors the caller passes by reference.\<close>

record collections =
  inputs :: "ValuePlug_ptr list"
  outputs :: "ValuePlug_ptr list"
  contextVariables :: "InternedString list"

text \<open>The \<^verbatim>\<open>try\<close> block of \<^verbatim>\<open>parse\<close>.\<close>

definition parse_try ::
  "('w, 'o) converters \<Rightarrow> ('w, 'o) EngineWrapper \<Rightarrow> Expression_ptr \<Rightarrow> string \<Rightarrow>
   collections \<Rightarrow> 'w \<Rightarrow> unit control \<times> collections \<times> 'w" where
  "parse_try X self node expression c world =
     (case methodOverride_parse self of
        None \<Rightarrow> (Fallthrough, c, world)
      | Some f \<Rightarrow>
          (case f node expression world of
             (Inl e, world') \<Rightarrow> (Throw (error_already_set e), c, world')
           | (Inr (pythonInputs, pythonOutputs, pythonContextVariables), world') \<Rightarrow>
               (case extend_container (extract_ValuePlug X) (inputs c) pythonInputs of
                  (Inl e, inputs') \<Rightarrow> (Throw e, c\<lparr>inputs := inputs'\<rparr>, world')
                | (Inr _, inputs') \<Rightarrow>
                    (case extend_container (extract_ValuePlug X) (outputs c) pythonOutputs of
                       (Inl e, outputs') \<Rightarrow>
                         (Throw e, c\<lparr>inputs := inputs', outputs := outputs'\<rparr>, world')
                     | (Inr _, outputs') \<Rightarrow>
                         (case extend_container (extract_InternedString X)
                                 (contextVariables c) pythonContextVariables of
                            (Inl e, contextVariables') \<Rightarrow>
                              (Throw e,
                               \<lparr>inputs = inputs', outputs = outputs',
                                contextVariables = contextVariables'\<rparr>, world')
                          | (Inr _, contextVariables') \<Rightarrow>
                              (Return (),
                               \<lparr>inputs = inputs', outputs = outputs',
                                contextVariables = contextVariables'\<rparr>, world'))))))"

definition EngineWrapper_parse ::
  "('w, 'o) converters \<Rightarrow> ('w, 'o) EngineWrapper \<Rightarrow> Expression_ptr \<Rightarrow> string \<Rightarrow>
   collections \<Rightarrow> 'w \<Rightarrow> (cpp_exception + unit) \<times> collections \<times> 'w" where
  "EngineWrapper_parse X self node expression c world =
     (if isSubclassed self then
        (case parse_try X self node expression c world of
           (r, c', world') \<Rightarrow>
             (case catch_error_already_set r of
                Return u \<Rightarrow> (Inr u, c', world')
              | Throw e \<Rightarrow> (Inl e, c', world')
              | Fallthrough \<Rightarrow>
                  (Inl (IECore_Exception ''Engine::parse() python method not defined''),
                   c', world')))
      else
        (Inl (IECore_Exception ''Engine::parse() python method not defined''), c, world))"

subsection \<open>EngineWrapper::execute\<close>

text \<open>
  The loop that appends each proxy input, as a Python object, to the list handed to the
  Python method.
\<close>

fun append_proxyInputs :: "ValuePlug_ptr list \<Rightarrow> ValuePlug_ptr list \<Rightarrow> ValuePlug_ptr list" where
  "append_proxyInputs pythonProxyInputs [] = pythonProxyInputs"
| "append_proxyInputs pythonProxyInputs (it # proxyInputs) =
     append_proxyInputs (pythonProxyInputs @ [it]) proxyInputs"

definition execute_try ::
  "('w, 'o) converters \<Rightarrow> ('w, 'o) EngineWrapper \<Rightarrow> Context_ptr \<Rightarrow> ValuePlug_ptr list \<Rightarrow>
   'w \<Rightarrow> ObjectVector control \<times> 'w" where
  "execute_try X self context proxyInputs world =
     (case methodOverride_execute self of
        None \<Rightarrow> (Fallthrough, world)
      | Some f \<Rightarrow>
          (case f context (append_proxyInputs [] proxyInputs) world of
             (Inl e, world') \<Rightarrow> (Throw (error_already_set e), world')
           | (Inr result, world') \<Rightarrow>
               (case extract_ConstObjectVectorPtr X result of
                  Inl e \<Rightarrow> (Throw (error_already_set e), world')
                | Inr v \<Rightarrow> (Return v, world'))))"

definition EngineWrapper_execute ::
  "('w, 'o) converters \<Rightarrow> ('w, 'o) EngineWrapper \<Rightarrow> Context_ptr \<Rightarrow> ValuePlug_ptr list \<Rightarrow>
   'w \<Rightarrow> (cpp_exception + ObjectVector) \<times> 'w" where
  "EngineWrapper_execute X self context proxyInputs world =
     (if isSubclassed self then
        (case execute_try X self context proxyInputs world of
           (r, world') \<Rightarrow>
             (case catch_error_already_set r of
                Return v \<Rightarrow> (Inr v, world')
              | Throw e \<Rightarrow> (Inl e, world')
              | Fallthrough \<Rightarrow>
                  (Inl (IECore_Exception ''Engine::execute() python method not defined''),
                   world')))
      else
        (Inl (IECore_Exception ''Engine::execute() python method not defined''), world))"

subsection \<open>EngineWrapper::apply\<close>

definition apply_try ::
  "('w, 'o) EngineWrapper \<Rightarrow> ValuePlug_ptr \<Rightarrow> Object_ptr \<Rightarrow> 'w \<Rightarrow> unit control \<times> 'w" where
  "apply_try self plug v world =
     (case methodOverride_apply self of
        None \<Rightarrow> (Fallthrough, world)
      | Some f \<Rightarrow>
          (case f plug v world of
             (Inl e, world') \<Rightarrow> (Throw (error_already_set e), world')
           | (Inr _, world') \<Rightarrow> (Return (), world')))"

definition EngineWrapper_apply ::
  "('w, 'o) EngineWrapper \<Rightarrow> ValuePlug_ptr \<Rightarrow> Object_ptr \<Rightarrow> 'w \<Rightarrow>
   (cpp_exception + unit) \<times> 'w" where
  "EngineWrapper_apply self plug v world =
     (if isSubclassed self then
        (case apply_try self plug v world of
           (r, world') \<Rightarrow>
             (case catch_error_already_set r of
                Return u \<Rightarrow> (Inr u, world')
              | Throw e \<Rightarrow> (Inl e, world')
              | Fallthrough \<Rightarrow>
                  (Inl (IECore_Exception ''Engine::apply() python method not defined''),
                   world')))
      else
        (Inl (IECore_Exception ''Engine::apply() python method not defined''), world))"

subsection \<open>The engine registry\<close>

text \<open>
  \<^verbatim>\<open>ExpressionEngineCreator\<close> is the C++ factory that the binding registers for a
  Python callable \<^verbatim>\<open>m_fn\<close>: it calls it and extracts an engine from what it returns.
  Nothing is caught here.
\<close>

type_synonym ('w, 'o) Creator = "'w \<Rightarrow> (cpp_exception + ('w, 'o) EngineWrapper) \<times> 'w"

definition ExpressionEngineCreator ::
  "('w, 'o) converters \<Rightarrow> ('o, 'w) py_call \<Rightarrow> ('w, 'o) Creator" where
  "ExpressionEngineCreator X m_fn world =
     (case m_fn world of
        (Inl e, world') \<Rightarrow> (Inl (error_already_set e), world')
      | (Inr obj, world') \<Rightarrow>
          (case extract_EnginePtr X obj of
             Inl e \<Rightarrow> (Inl (error_already_set e), world')
           | Inr result \<Rightarrow> (Inr result, world')))"

type_synonym ('w, 'o) registry = "(string \<times> ('w, 'o) Creator) list"

text \<open>
  Modelled from the spec: \<^verbatim>\<open>Expression::Engine::registerEngine\<close>,
  \<^verbatim>\<open>Expression::Engine::registeredEngines\<close> and the creation of an engine by name are
  defined in the core, outside the file. The specification has the registry map a
  language identifier to a factory; registering under an identifier already in use
  overwrites the factory stored for it; the identifiers are listed in the order of their
  registration; creation invokes the stored factory and fails with \<open>UnknownLanguage\<close> for
  an identifier that was never registered.
\<close>

fun Engine_registerEngine ::
  "string \<Rightarrow> ('w, 'o) Creator \<Rightarrow> ('w, 'o) registry \<Rightarrow> ('w, 'o) registry" where
  "Engine_registerEngine engineType creator [] = [(engineType, creator)]"
| "Engine_registerEngine engineType creator ((k, c) # reg) =
     (if k = engineType then (k, creator) # reg
      else (k, c) # Engine_registerEngine engineType creator reg)"

definition Engine_registeredEngines :: "('w, 'o) registry \<Rightarrow> string list" where
  "Engine_registeredEngines reg = map fst reg"

definition Engine_create ::
  "('w, 'o) registry \<Rightarrow> string \<Rightarrow> 'w \<Rightarrow> (cpp_exception + ('w, 'o) EngineWrapper) \<times> 'w" where
  "Engine_create reg languageId world =
     (case map_of reg languageId of
        None \<Rightarrow> (Inl (UnknownLanguage languageId), world)
      | Some factory \<Rightarrow> factory world)"

text \<open>The two static methods of the binding.\<close>

definition EngineWrapper_registerEngine ::
  "('w, 'o) converters \<Rightarrow> string \<Rightarrow> ('o, 'w) py_call \<Rightarrow> ('w, 'o) registry \<Rightarrow>
   ('w, 'o) registry" where
  "EngineWrapper_registerEngine X engineType creator reg =
     Engine_registerEngine engineType (ExpressionEngineCreator X creator) reg"

text \<open>
  The loop \<^verbatim>\<open>for( it = v.begin(); it != v.end(); it++ ) l.append( *it )\<close>, which
  both \<^verbatim>\<open>registeredEngines\<close> and \<^verbatim>\<open>languages\<close> run before they turn the list
  into a tuple.
\<close>

fun append_each :: "string list \<Rightarrow> string list \<Rightarrow> string list" where
  "append_each l [] = l"
| "append_each l (it # v) = append_each (l @ [it]) v"

definition EngineWrapper_registeredEngines :: "('w, 'o) registry \<Rightarrow> string list" where
  "EngineWrapper_registeredEngines reg = append_each [] (Engine_registeredEngines reg)"

subsection \<open>The Expression node\<close>

text \<open>
  Modelled from the spec: the class \<^verbatim>\<open>Gaffer::Expression\<close> is defined in the core;
  the file only calls its \<^verbatim>\<open>setExpression\<close>, \<^verbatim>\<open>getExpression\<close> and
  \<^verbatim>\<open>languages\<close>. The specification gives the host one expression text, one language
  identifier, the dependencies discovered by the last successful parse, and one live
  engine after a successful parse.
\<close>

record ('w, 'o) Expression =
  this_ptr :: Expression_ptr
  expr_text :: string
  expr_language :: string
  expr_inputs :: "ValuePlug_ptr list"
  expr_outputs :: "ValuePlug_ptr list"
  expr_contextVariables :: "InternedString set"
  expr_engine :: "('w, 'o) EngineWrapper option"

text \<open>
  Modelled from the spec: \<^verbatim>\<open>Expression::setExpression\<close>. A language with no
  registered factory is refused with \<open>UnknownLanguage\<close> and no expression is installed.
  Otherwise the host replaces text and language, discards the old engine and the old
  dependencies, creates a new engine through the registry and invokes its parse. When the
  parse fails the host keeps the new text and language, with empty dependencies and no
  engine, and reports the error to the caller.
\<close>

definition Expression_setExpression ::
  "('w, 'o) converters \<Rightarrow> ('w, 'o) registry \<Rightarrow> ('w, 'o) Expression \<Rightarrow> string \<Rightarrow> string \<Rightarrow>
   'w \<Rightarrow> (cpp_exception + unit) \<times> ('w, 'o) Expression \<times> 'w" where
  "Expression_setExpression X reg e expression language world =
     (if language \<notin> set (Engine_registeredEngines reg) then
        (Inl (UnknownLanguage language), e, world)
      else
        (let e0 = e\<lparr>expr_text := expression, expr_language := language, expr_inputs := [],
                    expr_outputs := [], expr_contextVariables := {}, expr_engine := None\<rparr>
         in case Engine_create reg language world of
              (Inl ex, world1) \<Rightarrow> (Inl ex, e0, world1)
            | (Inr engine, world1) \<Rightarrow>
                (case EngineWrapper_parse X engine (this_ptr e) expression
                        \<lparr>inputs = [], outputs = [], contextVariables = []\<rparr> world1 of
                   (Inl ex, c, world2) \<Rightarrow> (Inl ex, e0, world2)
                 | (Inr _, c, world2) \<Rightarrow>
                     (Inr (),
                      e0\<lparr>expr_inputs := inputs c, expr_outputs := outputs c,
                         expr_contextVariables := set (contextVariables c),
                         expr_engine := Some engine\<rparr>,
                      world2))))"

text \<open>
  Modelled from the spec: \<^verbatim>\<open>Expression::getExpression( language )\<close>, a pure accessor.
  It returns the text and writes the language to its reference argument: the pair is
  (returned text, language written).
\<close>

definition Expression_getExpression :: "('w, 'o) Expression \<Rightarrow> string \<times> string" where
  "Expression_getExpression e = (expr_text e, expr_language e)"

text \<open>
  Modelled from the spec: \<^verbatim>\<open>Expression::languages\<close> forwards to the registry's
  \<^verbatim>\<open>registeredEngines\<close>.
\<close>

definition Expression_languages :: "('w, 'o) registry \<Rightarrow> string list" where
  "Expression_languages reg = Engine_registeredEngines reg"

subsection \<open>The functions bound on the Expression class\<close>

text \<open>
  \<^verbatim>\<open>setExpression\<close> of the binding releases the interpreter lock for the length of
  the call and calls the node. The lock is left out here; \<open>setExpression_gil\<close> below
  has it.
\<close>

definition setExpression ::
  "('w, 'o) converters \<Rightarrow> ('w, 'o) registry \<Rightarrow> ('w, 'o) Expression \<Rightarrow> string \<Rightarrow> string \<Rightarrow>
   'w \<Rightarrow> (cpp_exception + unit) \<times> ('w, 'o) Expression \<times> 'w" where
  "setExpression X reg e expression language world =
     Expression_setExpression X reg e expression language world"

text \<open>\<^verbatim>\<open>getExpression\<close> of the binding: the tuple (expression, language).\<close>

definition getExpression :: "('w, 'o) Expression \<Rightarrow> string \<times> string" where
  "getExpression e =
     (case Expression_getExpression e of (expression, language) \<Rightarrow> (expression, language))"

definition languages :: "('w, 'o) registry \<Rightarrow> string list" where
  "languages reg = append_each [] (Expression_languages reg)"

text \<open>
  The method as Python sees it,
  \<^verbatim>\<open>.def( "setExpression", &setExpression, ( arg( "expression" ), arg( "language" ) = "python" ) )\<close>:
  a call that leaves the second argument out (\<open>None\<close> here) receives the default.
\<close>

definition def_setExpression ::
  "('w, 'o) converters \<Rightarrow> ('w, 'o) registry \<Rightarrow> ('w, 'o) Expression \<Rightarrow> string \<Rightarrow>
   string option \<Rightarrow> 'w \<Rightarrow> (cpp_exception + unit) \<times> ('w, 'o) Expression \<times> 'w" where
  "def_setExpression X reg e expression language world =
     setExpression X reg e expression
       (case language of None \<Rightarrow> ''python'' | Some l \<Rightarrow> l) world"

subsection \<open>The interpreter lock\<close>

text \<open>
  Python's interpreter lock is held by one thread at a time. The state of the thread
  that runs the functions of the file is whether it holds the lock, next to the state
  Python can reach.
\<close>

record 'w thread_state =
  gil_held :: bool
  thread_world :: 'w

text \<open>
  The two guards of IECorePython that the file constructs. \<^verbatim>\<open>ScopedGILRelease\<close>
  releases the lock when it is constructed and takes it again when it is destroyed.
  \<^verbatim>\<open>ScopedGILLock\<close> takes the lock when it is constructed, unless the thread holds it
  already, and when it is destroyed puts the thread back as it found it:
  \<^verbatim>\<open>m_gilState\<close> says whether the lock was held. A guard is destroyed when its scope
  is left, by a return and by an exception alike.
\<close>

definition ScopedGILRelease_ctor :: "'w thread_state \<Rightarrow> 'w thread_state" where
  "ScopedGILRelease_ctor s = s\<lparr>gil_held := False\<rparr>"

definition ScopedGILRelease_dtor :: "'w thread_state \<Rightarrow> 'w thread_state" where
  "ScopedGILRelease_dtor s = s\<lparr>gil_held := True\<rparr>"

definition ScopedGILLock_ctor :: "'w thread_state \<Rightarrow> 'w thread_state" where
  "ScopedGILLock_ctor s = s\<lparr>gil_held := True\<rparr>"

definition ScopedGILLock_dtor :: "bool \<Rightarrow> 'w thread_state \<Rightarrow> 'w thread_state" where
  "ScopedGILLock_dtor m_gilState s = s\<lparr>gil_held := m_gilState\<rparr>"

text \<open>
  \<^verbatim>\<open>ExpressionEngineCreator::operator()\<close> with the guard it constructs first
  (line 79).
\<close>

definition ExpressionEngineCreator_gil ::
  "('w, 'o) converters \<Rightarrow> ('o, 'w) py_call \<Rightarrow> 'w thread_state \<Rightarrow>
   (cpp_exception + ('w, 'o) EngineWrapper) \<times> 'w thread_state" where
  "ExpressionEngineCreator_gil X m_fn s =
     (let gilLock = ScopedGILLock_ctor s
      in case ExpressionEngineCreator X m_fn (thread_world gilLock) of
           (result, world') \<Rightarrow>
             (result, ScopedGILLock_dtor (gil_held s) (gilLock\<lparr>thread_world := world'\<rparr>)))"

text \<open>
  \<^verbatim>\<open>EngineWrapper::parse\<close> with the guard it constructs when the object is subclassed
  (line 103). The scope of the guard is the \<^verbatim>\<open>try\<close> block with its handler; the
  \<^verbatim>\<open>throw\<close> that follows the scope changes no state.
\<close>

definition EngineWrapper_parse_gil ::
  "('w, 'o) converters \<Rightarrow> ('w, 'o) EngineWrapper \<Rightarrow> Expression_ptr \<Rightarrow> string \<Rightarrow>
   collections \<Rightarrow> 'w thread_state \<Rightarrow> (cpp_exception + unit) \<times> collections \<times> 'w thread_state" where
  "EngineWrapper_parse_gil X self node expression c s =
     (if isSubclassed self then
        (let gilLock = ScopedGILLock_ctor s
         in case EngineWrapper_parse X self node expression c (thread_world gilLock) of
              (r, c', world') \<Rightarrow>
                (r, c', ScopedGILLock_dtor (gil_held s) (gilLock\<lparr>thread_world := world'\<rparr>)))
      else
        (case EngineWrapper_parse X self node expression c (thread_world s) of
           (r, c', world') \<Rightarrow> (r, c', s\<lparr>thread_world := world'\<rparr>)))"

text \<open>
  Modelled from the spec: the creation of an engine by name, in the calling thread. The
  specification has an engine that touches the interpreter take the lock around that
  work and release it before it returns to the core, as the factory of the binding does:
  creation leaves the thread holding the lock, or not, as it found it.
\<close>

definition Engine_create_gil ::
  "('w, 'o) registry \<Rightarrow> string \<Rightarrow> 'w thread_state \<Rightarrow>
   (cpp_exception + ('w, 'o) EngineWrapper) \<times> 'w thread_state" where
  "Engine_create_gil reg languageId s =
     (case Engine_create reg languageId (thread_world s) of
        (r, world') \<Rightarrow> (r, s\<lparr>thread_world := world'\<rparr>))"

text \<open>
  Modelled from the spec: \<^verbatim>\<open>Expression::setExpression\<close> as above, in the calling
  thread. The core takes no lock of its own. It reaches the parse of the engine through
  the virtual method \<^verbatim>\<open>Engine::parse\<close>, which is an argument here: for an engine
  written in Python it is \<^verbatim>\<open>EngineWrapper::parse\<close>.
\<close>

definition Expression_setExpression_gil ::
  "(('w, 'o) EngineWrapper \<Rightarrow> Expression_ptr \<Rightarrow> string \<Rightarrow> collections \<Rightarrow> 'w thread_state \<Rightarrow>
      (cpp_exception + unit) \<times> collections \<times> 'w thread_state) \<Rightarrow>
   ('w, 'o) registry \<Rightarrow> ('w, 'o) Expression \<Rightarrow> string \<Rightarrow> string \<Rightarrow> 'w thread_state \<Rightarrow>
   (cpp_exception + unit) \<times> ('w, 'o) Expression \<times> 'w thread_state" where
  "Expression_setExpression_gil engine_parse reg e expression language s =
     (if language \<notin> set (Engine_registeredEngines reg) then
        (Inl (UnknownLanguage language), e, s)
      else
        (let e0 = e\<lparr>expr_text := expression, expr_language := language, expr_inputs := [],
                    expr_outputs := [], expr_contextVariables := {}, expr_engine := None\<rparr>
         in case Engine_create_gil reg language s of
              (Inl ex, s1) \<Rightarrow> (Inl ex, e0, s1)
            | (Inr engine, s1) \<Rightarrow>
                (case engine_parse engine (this_ptr e) expression
                        \<lparr>inputs = [], outputs = [], contextVariables = []\<rparr> s1 of
                   (Inl ex, c, s2) \<Rightarrow> (Inl ex, e0, s2)
                 | (Inr _, c, s2) \<Rightarrow>
                     (Inr (),
                      e0\<lparr>expr_inputs := inputs c, expr_outputs := outputs c,
                         expr_contextVariables := set (contextVariables c),
                         expr_engine := Some engine\<rparr>,
                      s2))))"

text \<open>
  \<^verbatim>\<open>setExpression\<close> of the binding with its guard: lines 57 to 61. The method of
  the node that line 60 calls is an argument.
\<close>

definition setExpression_gil ::
  "(('w, 'o) Expression \<Rightarrow> string \<Rightarrow> string \<Rightarrow> 'w thread_state \<Rightarrow>
      (cpp_exception + unit) \<times> ('w, 'o) Expression \<times> 'w thread_state) \<Rightarrow>
   ('w, 'o) Expression \<Rightarrow> string \<Rightarrow> string \<Rightarrow> 'w thread_state \<Rightarrow>
   (cpp_exception + unit) \<times> ('w, 'o) Expression \<times> 'w thread_state" where
  "setExpression_gil e_setExpression e expression language s =
     (let gilRelease = ScopedGILRelease_ctor s
      in case e_setExpression e expression language gilRelease of
           (r, e', s') \<Rightarrow> (r, e', ScopedGILRelease_dtor s'))"

subsection \<open>Engines and converters to run the definitions on\<close>

text \<open>
  Python values as far as the conversions of the file tell them apart, and, for the state
  Python can reach, the variables of the evaluation context.
\<close>

datatype py_value =
    PyNone
  | PyStr string
  | PyValuePlug ValuePlug_ptr
  | PyObjectVector ObjectVector
  | PyEngine

type_synonym py_state = "(string \<times> int) list"

text \<open>
  An engine whose three methods are defined and change nothing: its expression reads the
  plug at 1, writes the plug at 2 and names the context variable \<open>frame\<close> twice.
\<close>

definition stub_engine :: "(py_state, py_value) EngineWrapper" where
  "stub_engine =
     \<lparr>isSubclassed = True,
      methodOverride_parse =
        Some (\<lambda>node expression world.
          (Inr ([PyValuePlug 1], [PyValuePlug 2], [PyStr ''frame'', PyStr ''frame'']), world)),
      methodOverride_execute =
        Some (\<lambda>context proxyInputs world. (Inr (PyObjectVector [10]), world)),
      methodOverride_apply = Some (\<lambda>plug v world. (Inr (), world))\<rparr>"

text \<open>A Python subclass that defines none of the three methods.\<close>

definition no_methods_engine :: "(py_state, py_value) EngineWrapper" where
  "no_methods_engine =
     \<lparr>isSubclassed = True, methodOverride_parse = None, methodOverride_execute = None,
      methodOverride_apply = None\<rparr>"

text \<open>An engine whose three methods raise.\<close>

definition raising_engine :: "(py_state, py_value) EngineWrapper" where
  "raising_engine =
     \<lparr>isSubclassed = True,
      methodOverride_parse =
        Some (\<lambda>node expression world.
          (Inl (PyException ''SyntaxError'' ''invalid syntax''), world)),
      methodOverride_execute =
        Some (\<lambda>context proxyInputs world.
          (Inl (PyException ''ZeroDivisionError'' ''division by zero''), world)),
      methodOverride_apply =
        Some (\<lambda>plug v world. (Inl (PyException ''TypeError'' ''unsupported value''), world))\<rparr>"

text \<open>
  An engine whose \<^verbatim>\<open>execute\<close> sets a variable of the context it was handed, as
  \<^verbatim>\<open>context["frame"] = 2\<close> does in Python.
\<close>

definition context_writing_engine :: "(py_state, py_value) EngineWrapper" where
  "context_writing_engine =
     \<lparr>isSubclassed = True,
      methodOverride_parse = None,
      methodOverride_execute =
        Some (\<lambda>context proxyInputs world.
          (Inr (PyObjectVector []), (''frame'', 2) # world)),
      methodOverride_apply = None\<rparr>"

definition example_converters :: "(py_state, py_value) converters" where
  "example_converters =
     \<lparr>extract_ValuePlug = (\<lambda>obj. case obj of PyValuePlug p \<Rightarrow> Some p | _ \<Rightarrow> None),
      extract_InternedString = (\<lambda>obj. case obj of PyStr s \<Rightarrow> Some s | _ \<Rightarrow> None),
      extract_ConstObjectVectorPtr =
        (\<lambda>obj. case obj of
           PyObjectVector v \<Rightarrow> Inr v
         | _ \<Rightarrow> Inl (PyException ''TypeError'' ''No registered converter'')),
      extract_EnginePtr =
        (\<lambda>obj. case obj of
           PyEngine \<Rightarrow> Inr stub_engine
         | _ \<Rightarrow> Inl (PyException ''TypeError'' ''No registered converter''))\<rparr>"

text \<open>A node at address 3 that holds no expression yet.\<close>

definition empty_node :: "(py_state, py_value) Expression" where
  "empty_node =
     \<lparr>this_ptr = 3, expr_text = [], expr_language = [], expr_inputs = [], expr_outputs = [],
      expr_contextVariables = {}, expr_engine = None\<rparr>"

text \<open>
  Two Python callables to register: one returns the engine above, the other raises.
\<close>

definition python_creator :: "(py_value, py_state) py_call" where
  "python_creator world = (Inr PyEngine, world)"

definition failing_creator :: "(py_value, py_state) py_call" where
  "failing_creator world = (Inl (PyException ''RuntimeError'' ''no engine''), world)"

text \<open>
  A parse, and a method of the node, that cannot run while the calling thread holds the
  interpreter lock: entered with the lock held they fail at once, and otherwise they are
  the parse of the wrapper and the method of the node for a registry with \<open>python\<close>.
\<close>

definition parse_refusing_held_lock ::
  "(py_state, py_value) EngineWrapper \<Rightarrow> Expression_ptr \<Rightarrow> string \<Rightarrow> collections \<Rightarrow>
   py_state thread_state \<Rightarrow> (cpp_exception + unit) \<times> collections \<times> py_state thread_state" where
  "parse_refusing_held_lock self node expression c s =
     (if gil_held s then (Inl (IECore_Exception ''interpreter lock held on entry''), c, s)
      else EngineWrapper_parse_gil example_converters self node expression c s)"


section \<open>Properties\<close>

subsection \<open>Auxiliary facts\<close>

lemma extend_container_Inr:
  "extend_container ex c l = (Inr u, c') \<longleftrightarrow> (\<exists>xs. map ex l = map Some xs \<and> c' = c @ xs)"
proof (induction l arbitrary: c)
  case Nil
  then show ?case by auto
next
  case (Cons elem l)
  show ?case
  proof (cases "ex elem")
    case None
    then show ?thesis by (auto simp: map_eq_Cons_conv)
  next
    case (Some x)
    then show ?thesis using Cons.IH [of "c @ [x]"]
      by (auto simp: map_eq_Cons_conv Cons_eq_map_conv)
  qed
qed

lemma extend_container_Inl:
  "extend_container ex c l = (Inl e, c') \<Longrightarrow>
   e = error_already_set (PyException ''TypeError'' ''Incompatible Data Type'')"
  by (induction l arbitrary: c) (auto split: option.splits)

lemma extend_container_keeps_pushed:
  "extend_container ex c l = (r, c') \<Longrightarrow> \<exists>xs. c' = c @ xs"
proof (induction l arbitrary: c)
  case Nil
  then show ?case by simp
next
  case (Cons elem l)
  show ?case
  proof (cases "ex elem")
    case None
    with Cons.prems show ?thesis by simp
  next
    case (Some x)
    with Cons.prems have "extend_container ex (c @ [x]) l = (r, c')"
      by simp
    then obtain xs where "c' = (c @ [x]) @ xs"
      using Cons.IH by blast
    then have "c' = c @ (x # xs)"
      by simp
    then show ?thesis ..
  qed
qed

lemma extend_container_stops_at_first_failure:
  "extend_container (extract_ValuePlug example_converters) [7]
     [PyValuePlug 1, PyNone, PyValuePlug 2] =
   (Inl (error_already_set (PyException ''TypeError'' ''Incompatible Data Type'')), [7, 1])"
  by (simp add: example_converters_def)

lemma catch_Return [simp]: "catch_error_already_set (Return v) = Return v"
  by (simp add: catch_error_already_set_def)

lemma catch_Fallthrough [simp]: "catch_error_already_set Fallthrough = Fallthrough"
  by (simp add: catch_error_already_set_def)

lemma catch_Throw_py [simp]:
  "catch_error_already_set (Throw (error_already_set e)) = Throw (IECore_Exception (py_message e))"
  by (simp add: catch_error_already_set_def translatePythonException_def)

lemma catch_never_py: "catch_error_already_set r \<noteq> Throw (error_already_set e)"
  by (auto simp: catch_error_already_set_def translatePythonException_def
      split: control.splits cpp_exception.splits)

lemma append_proxyInputs_eq: "append_proxyInputs l xs = l @ xs"
  by (induction xs arbitrary: l) auto

lemma append_each_eq: "append_each l v = l @ v"
  by (induction v arbitrary: l) auto

lemma parse_no_py:
  "fst (EngineWrapper_parse X self node expression c world) \<noteq> Inl (error_already_set e)"
proof (cases "isSubclassed self")
  case False
  then show ?thesis by (simp add: EngineWrapper_parse_def)
next
  case True
  obtain r c' world' where t: "parse_try X self node expression c world = (r, c', world')"
    by (cases "parse_try X self node expression c world") auto
  show ?thesis
    using True t catch_never_py [of r e]
    by (cases "catch_error_already_set r") (auto simp: EngineWrapper_parse_def)
qed

lemma execute_no_py:
  "fst (EngineWrapper_execute X self context proxyInputs world) \<noteq> Inl (error_already_set e)"
proof (cases "isSubclassed self")
  case False
  then show ?thesis by (simp add: EngineWrapper_execute_def)
next
  case True
  obtain r world' where t: "execute_try X self context proxyInputs world = (r, world')"
    by (cases "execute_try X self context proxyInputs world") auto
  show ?thesis
    using True t catch_never_py [of r e]
    by (cases "catch_error_already_set r") (auto simp: EngineWrapper_execute_def)
qed

lemma apply_no_py:
  "fst (EngineWrapper_apply self plug v world) \<noteq> Inl (error_already_set e)"
proof (cases "isSubclassed self")
  case False
  then show ?thesis by (simp add: EngineWrapper_apply_def)
next
  case True
  obtain r world' where t: "apply_try self plug v world = (r, world')"
    by (cases "apply_try self plug v world") auto
  show ?thesis
    using True t catch_never_py [of r e]
    by (cases "catch_error_already_set r") (auto simp: EngineWrapper_apply_def)
qed

lemma parse_raises:
  assumes "isSubclassed self" and "methodOverride_parse self = Some f"
    and "f node expression world = (Inl e, world')"
  shows "EngineWrapper_parse X self node expression c world =
           (Inl (IECore_Exception (py_message e)), c, world')"
  using assms by (simp add: EngineWrapper_parse_def parse_try_def)

lemma execute_raises:
  assumes "isSubclassed self" and "methodOverride_execute self = Some f"
    and "f context proxyInputs world = (Inl e, world')"
  shows "EngineWrapper_execute X self context proxyInputs world =
           (Inl (IECore_Exception (py_message e)), world')"
  using assms by (simp add: EngineWrapper_execute_def execute_try_def append_proxyInputs_eq)

lemma apply_raises:
  assumes "isSubclassed self" and "methodOverride_apply self = Some f"
    and "f plug v world = (Inl e, world')"
  shows "EngineWrapper_apply self plug v world =
           (Inl (IECore_Exception (py_message e)), world')"
  using assms by (simp add: EngineWrapper_apply_def apply_try_def)

lemma parse_try_Return:
  "parse_try X self node expression c world = (Return u, c', world') \<longleftrightarrow>
   (\<exists>f pythonInputs pythonOutputs pythonContextVariables xs ys zs.
      methodOverride_parse self = Some f \<and>
      f node expression world =
        (Inr (pythonInputs, pythonOutputs, pythonContextVariables), world') \<and>
      map (extract_ValuePlug X) pythonInputs = map Some xs \<and>
      map (extract_ValuePlug X) pythonOutputs = map Some ys \<and>
      map (extract_InternedString X) pythonContextVariables = map Some zs \<and>
      c' = \<lparr>inputs = inputs c @ xs, outputs = outputs c @ ys,
            contextVariables = contextVariables c @ zs\<rparr>)"
  (is "?l \<longleftrightarrow> ?r")
proof
  assume ?l
  then obtain f where f: "methodOverride_parse self = Some f"
    by (cases "methodOverride_parse self") (simp_all add: parse_try_def)
  obtain r w where rw: "f node expression world = (r, w)"
    by (cases "f node expression world") auto
  from \<open>?l\<close> f rw obtain pi po pc where r: "r = Inr (pi, po, pc)"
    by (cases r) (auto simp: parse_try_def)
  obtain r1 i' where e1: "extend_container (extract_ValuePlug X) (inputs c) pi = (r1, i')"
    by (cases "extend_container (extract_ValuePlug X) (inputs c) pi") auto
  obtain r2 o' where e2: "extend_container (extract_ValuePlug X) (outputs c) po = (r2, o')"
    by (cases "extend_container (extract_ValuePlug X) (outputs c) po") auto
  obtain r3 v' where
    e3: "extend_container (extract_InternedString X) (contextVariables c) pc = (r3, v')"
    by (cases "extend_container (extract_InternedString X) (contextVariables c) pc") auto
  from \<open>?l\<close> f rw r e1 have r1: "r1 = Inr ()"
    by (cases r1) (simp_all add: parse_try_def)
  from \<open>?l\<close> f rw r e1 e2 r1 have r2: "r2 = Inr ()"
    by (cases r2) (simp_all add: parse_try_def)
  from \<open>?l\<close> f rw r e1 e2 e3 r1 r2 have r3: "r3 = Inr ()"
    by (cases r3) (simp_all add: parse_try_def)
  from \<open>?l\<close> f rw r e1 e2 e3 r1 r2 r3
  have res: "w = world'" "c' = \<lparr>inputs = i', outputs = o', contextVariables = v'\<rparr>"
    by (simp_all add: parse_try_def)
  from e1 r1 obtain xs where xs: "map (extract_ValuePlug X) pi = map Some xs" "i' = inputs c @ xs"
    by (auto simp: extend_container_Inr)
  from e2 r2 obtain ys where ys: "map (extract_ValuePlug X) po = map Some ys" "o' = outputs c @ ys"
    by (auto simp: extend_container_Inr)
  from e3 r3 obtain zs where
    zs: "map (extract_InternedString X) pc = map Some zs" "v' = contextVariables c @ zs"
    by (auto simp: extend_container_Inr)
  from f rw r res xs ys zs show ?r
    by blast
next
  assume ?r
  then obtain f pi po pc xs ys zs where
    f: "methodOverride_parse self = Some f" and
    rw: "f node expression world = (Inr (pi, po, pc), world')" and
    xs: "map (extract_ValuePlug X) pi = map Some xs" and
    ys: "map (extract_ValuePlug X) po = map Some ys" and
    zs: "map (extract_InternedString X) pc = map Some zs" and
    c': "c' = \<lparr>inputs = inputs c @ xs, outputs = outputs c @ ys,
            contextVariables = contextVariables c @ zs\<rparr>"
    by blast
  have e1: "extend_container (extract_ValuePlug X) (inputs c) pi = (Inr (), inputs c @ xs)"
    using xs by (auto simp: extend_container_Inr)
  have e2: "extend_container (extract_ValuePlug X) (outputs c) po = (Inr (), outputs c @ ys)"
    using ys by (auto simp: extend_container_Inr)
  have e3: "extend_container (extract_InternedString X) (contextVariables c) pc =
      (Inr (), contextVariables c @ zs)"
    using zs by (auto simp: extend_container_Inr)
  show ?l
    by (simp add: parse_try_def f rw e1 e2 e3 c')
qed

lemma execute_state:
  "snd (EngineWrapper_execute X self context proxyInputs world) =
   (if isSubclassed self then
      (case methodOverride_execute self of
         None \<Rightarrow> world
       | Some f \<Rightarrow> snd (f context proxyInputs world))
    else world)"
proof (cases "isSubclassed self")
  case False
  then show ?thesis by (simp add: EngineWrapper_execute_def)
next
  case True
  show ?thesis
  proof (cases "methodOverride_execute self")
    case None
    with True show ?thesis by (simp add: EngineWrapper_execute_def execute_try_def)
  next
    case (Some f)
    obtain r w where rw: "f context proxyInputs world = (r, w)"
      by (cases "f context proxyInputs world") auto
    show ?thesis
    proof (cases r)
      case (Inl e)
      with True Some rw show ?thesis by (simp add: execute_raises)
    next
      case (Inr result)
      with True Some rw show ?thesis
        by (cases "extract_ConstObjectVectorPtr X result")
          (simp_all add: EngineWrapper_execute_def execute_try_def append_proxyInputs_eq)
    qed
  qed
qed

lemma execute_outcome:
  "fst (EngineWrapper_execute X self context proxyInputs world) =
   (if isSubclassed self then
      (case methodOverride_execute self of
         None \<Rightarrow> Inl (IECore_Exception ''Engine::execute() python method not defined'')
       | Some f \<Rightarrow>
           (case fst (f context proxyInputs world) of
              Inl e \<Rightarrow> Inl (IECore_Exception (py_message e))
            | Inr result \<Rightarrow>
                (case extract_ConstObjectVectorPtr X result of
                   Inl e \<Rightarrow> Inl (IECore_Exception (py_message e))
                 | Inr v \<Rightarrow> Inr v)))
    else Inl (IECore_Exception ''Engine::execute() python method not defined''))"
proof (cases "isSubclassed self")
  case False
  then show ?thesis by (simp add: EngineWrapper_execute_def)
next
  case True
  show ?thesis
  proof (cases "methodOverride_execute self")
    case None
    with True show ?thesis by (simp add: EngineWrapper_execute_def execute_try_def)
  next
    case (Some f)
    obtain r w where rw: "f context proxyInputs world = (r, w)"
      by (cases "f context proxyInputs world") auto
    show ?thesis
    proof (cases r)
      case (Inl e)
      with True Some rw show ?thesis by (simp add: execute_raises)
    next
      case (Inr result)
      with True Some rw show ?thesis
        by (cases "extract_ConstObjectVectorPtr X result")
          (simp_all add: EngineWrapper_execute_def execute_try_def append_proxyInputs_eq)
    qed
  qed
qed

lemma map_of_registerEngine:
  "map_of (Engine_registerEngine engineType creator reg) =
   (map_of reg)(engineType \<mapsto> creator)"
  by (induction reg) (auto simp: fun_eq_iff)

lemma keys_registerEngine:
  "map fst (Engine_registerEngine engineType creator reg) =
   (if engineType \<in> fst ` set reg then map fst reg else map fst reg @ [engineType])"
  by (induction reg) (auto simp: rev_image_eqI)

lemma count_list_distinct:
  "distinct xs \<Longrightarrow> x \<in> set xs \<Longrightarrow> count_list xs x = 1"
  by (induction xs) auto

lemma distinct_registerEngine:
  "distinct (map fst reg) \<Longrightarrow>
   distinct (map fst (Engine_registerEngine engineType creator reg))"
  by (simp add: keys_registerEngine)

lemma registered_after_registerEngine:
  "engineType \<in> set (map fst (Engine_registerEngine engineType creator reg))"
  by (simp add: keys_registerEngine)

lemma ExpressionEngineCreator_gil_neutral:
  "ExpressionEngineCreator_gil X m_fn s =
   (case ExpressionEngineCreator X m_fn (thread_world s) of
      (result, world') \<Rightarrow> (result, s\<lparr>thread_world := world'\<rparr>))"
  by (simp add: ExpressionEngineCreator_gil_def ScopedGILLock_ctor_def ScopedGILLock_dtor_def
      split: prod.splits)

lemma EngineWrapper_parse_gil_neutral:
  "EngineWrapper_parse_gil X self node expression c s =
   (case EngineWrapper_parse X self node expression c (thread_world s) of
      (r, c', world') \<Rightarrow> (r, c', s\<lparr>thread_world := world'\<rparr>))"
  by (simp add: EngineWrapper_parse_gil_def ScopedGILLock_ctor_def ScopedGILLock_dtor_def
      split: prod.splits)


lemma setExpression_gil_erased:
  "setExpression_gil (Expression_setExpression_gil (EngineWrapper_parse_gil X) reg)
     e expression language s =
   (case setExpression X reg e expression language (thread_world s) of
      (r, e', world') \<Rightarrow> (r, e', \<lparr>gil_held = True, thread_world = world'\<rparr>))"
  by (simp add: setExpression_gil_def Expression_setExpression_gil_def setExpression_def
      Expression_setExpression_def Engine_create_gil_def EngineWrapper_parse_gil_neutral
      ScopedGILRelease_ctor_def ScopedGILRelease_dtor_def Let_def
      split: prod.splits sum.splits)


lemma held_lock_reaches_parse_without_release:
  "fst (Expression_setExpression_gil parse_refusing_held_lock
          (EngineWrapper_registerEngine example_converters ''python'' python_creator [])
          empty_node ''parent.n.y = parent.n.x'' ''python''
          \<lparr>gil_held = True, thread_world = []\<rparr>) =
   Inl (IECore_Exception ''interpreter lock held on entry'')"
  by (simp add: Expression_setExpression_gil_def Engine_registeredEngines_def
      EngineWrapper_registerEngine_def Engine_create_gil_def Engine_create_def
      ExpressionEngineCreator_def python_creator_def example_converters_def
      parse_refusing_held_lock_def empty_node_def)


subsection \<open>The three phases of an engine\<close>

text \<open>
  C1. An engine that does not provide a phase, either because the Python object is not of
  a class derived in Python or because that class does not define the method, fails when
  the phase is invoked: \<^verbatim>\<open>parse\<close>, \<^verbatim>\<open>execute\<close> and \<^verbatim>\<open>apply\<close> each throw an
  \<^verbatim>\<open>IECore::Exception\<close> saying that the Python method is not defined. None of them
  returns normally, and nothing is changed before the throw.
\<close>

theorem unimplemented_phase_throws:
  "(\<not> isSubclassed self \<or> methodOverride_parse self = None \<longrightarrow>
      EngineWrapper_parse X self node expression c world =
        (Inl (IECore_Exception ''Engine::parse() python method not defined''), c, world)) \<and>
   (\<not> isSubclassed self \<or> methodOverride_execute self = None \<longrightarrow>
      EngineWrapper_execute X self context proxyInputs world =
        (Inl (IECore_Exception ''Engine::execute() python method not defined''), world)) \<and>
   (\<not> isSubclassed self \<or> methodOverride_apply self = None \<longrightarrow>
      EngineWrapper_apply self plug v world =
        (Inl (IECore_Exception ''Engine::apply() python method not defined''), world))"
  by (simp add: EngineWrapper_parse_def parse_try_def EngineWrapper_execute_def execute_try_def
      EngineWrapper_apply_def apply_try_def)

theorem unimplemented_phase_throws_witness:
  "EngineWrapper_parse example_converters no_methods_engine 3 ''parent.n.x = 1''
     \<lparr>inputs = [7], outputs = [8], contextVariables = [''time'']\<rparr> [] =
     (Inl (IECore_Exception ''Engine::parse() python method not defined''),
      \<lparr>inputs = [7], outputs = [8], contextVariables = [''time'']\<rparr>, []) \<and>
   EngineWrapper_execute example_converters no_methods_engine 5 [1] [] =
     (Inl (IECore_Exception ''Engine::execute() python method not defined''), []) \<and>
   EngineWrapper_apply no_methods_engine 2 10 [] =
     (Inl (IECore_Exception ''Engine::apply() python method not defined''), [])"
  using unimplemented_phase_throws [of no_methods_engine example_converters 3 "''parent.n.x = 1''"
      "\<lparr>inputs = [7], outputs = [8], contextVariables = [''time'']\<rparr>" "[]" 5 "[1]" 2 10]
  by (simp add: no_methods_engine_def)

text \<open>
  C2. A Python exception raised while one of the three phases runs never leaves the
  wrapper as boost::python's \<^verbatim>\<open>error_already_set\<close>: whatever the engine object, the
  converters and the arguments, the failure that reaches the core is not of that type.
  When the Python method itself raises, what reaches the core is an
  \<^verbatim>\<open>IECore::Exception\<close> whose message is the message of the Python exception.
\<close>

theorem python_exceptions_are_translated:
  "fst (EngineWrapper_parse X self node expression c world) \<noteq> Inl (error_already_set e') \<and>
   fst (EngineWrapper_execute X self context proxyInputs world) \<noteq> Inl (error_already_set e') \<and>
   fst (EngineWrapper_apply self plug v world) \<noteq> Inl (error_already_set e') \<and>
   (isSubclassed self \<and> methodOverride_parse self = Some fp \<and>
    fst (fp node expression world) = Inl e \<longrightarrow>
      fst (EngineWrapper_parse X self node expression c world) =
        Inl (IECore_Exception (py_message e))) \<and>
   (isSubclassed self \<and> methodOverride_execute self = Some fe \<and>
    fst (fe context proxyInputs world) = Inl e \<longrightarrow>
      fst (EngineWrapper_execute X self context proxyInputs world) =
        Inl (IECore_Exception (py_message e))) \<and>
   (isSubclassed self \<and> methodOverride_apply self = Some fa \<and>
    fst (fa plug v world) = Inl e \<longrightarrow>
      fst (EngineWrapper_apply self plug v world) = Inl (IECore_Exception (py_message e)))"
proof -
  have p: "fst (EngineWrapper_parse X self node expression c world) =
      Inl (IECore_Exception (py_message e))"
    if "isSubclassed self" "methodOverride_parse self = Some fp"
      "fst (fp node expression world) = Inl e"
    using that parse_raises [of self fp node expression world e "snd (fp node expression world)" X c]
    by (cases "fp node expression world") simp
  have x: "fst (EngineWrapper_execute X self context proxyInputs world) =
      Inl (IECore_Exception (py_message e))"
    if "isSubclassed self" "methodOverride_execute self = Some fe"
      "fst (fe context proxyInputs world) = Inl e"
    using that execute_raises [of self fe "context" proxyInputs world e
        "snd (fe context proxyInputs world)" X]
    by (cases "fe context proxyInputs world") simp
  have a: "fst (EngineWrapper_apply self plug v world) = Inl (IECore_Exception (py_message e))"
    if "isSubclassed self" "methodOverride_apply self = Some fa"
      "fst (fa plug v world) = Inl e"
    using that apply_raises [of self fa plug v world e "snd (fa plug v world)"]
    by (cases "fa plug v world") simp
  show ?thesis
    using p x a parse_no_py [of X self node expression c world e']
      execute_no_py [of X self "context" proxyInputs world e']
      apply_no_py [of self plug v world e']
    by blast
qed

theorem python_exceptions_are_translated_witness:
  "fst (EngineWrapper_parse example_converters raising_engine 3 ''1 +''
          \<lparr>inputs = [], outputs = [], contextVariables = []\<rparr> []) =
     Inl (IECore_Exception ''invalid syntax'') \<and>
   fst (EngineWrapper_execute example_converters raising_engine 5 [1] []) =
     Inl (IECore_Exception ''division by zero'') \<and>
   fst (EngineWrapper_apply raising_engine 2 10 []) =
     Inl (IECore_Exception ''unsupported value'')"
proof -
  have p: "fst (EngineWrapper_parse example_converters raising_engine 3 ''1 +''
          \<lparr>inputs = [], outputs = [], contextVariables = []\<rparr> []) =
     Inl (IECore_Exception ''invalid syntax'')"
    using python_exceptions_are_translated [of example_converters raising_engine 3 "''1 +''"
      "\<lparr>inputs = [], outputs = [], contextVariables = []\<rparr>" "[]" _ _ _ _ _
      "\<lambda>node expression world. (Inl (PyException ''SyntaxError'' ''invalid syntax''), world)"
      "PyException ''SyntaxError'' ''invalid syntax''"]
    by (simp add: raising_engine_def)
  have x: "fst (EngineWrapper_execute example_converters raising_engine 5 [1] []) =
     Inl (IECore_Exception ''division by zero'')"
    using python_exceptions_are_translated [of example_converters raising_engine _ _ _ "[]"
      _ 5 "[1]" _ _ _ "PyException ''ZeroDivisionError'' ''division by zero''"
      "\<lambda>context proxyInputs world.
          (Inl (PyException ''ZeroDivisionError'' ''division by zero''), world)"]
    by (simp add: raising_engine_def)
  have a: "fst (EngineWrapper_apply raising_engine 2 10 []) =
     Inl (IECore_Exception ''unsupported value'')"
    using python_exceptions_are_translated [of _ raising_engine _ _ _ "[]"
      _ _ _ 2 10 _ "PyException ''TypeError'' ''unsupported value'' " _
      "\<lambda>plug v world. (Inl (PyException ''TypeError'' ''unsupported value''), world)"]
    by (simp add: raising_engine_def)
  from p x a show ?thesis by simp
qed

text \<open>
  C9. When the Python \<^verbatim>\<open>parse\<close> method raises, the wrapper throws the translated
  exception and the three vectors of the caller are as they were before the call.
  Conversely the vectors are changed only if the Python method was found and returned
  without raising.
\<close>

theorem failed_parse_leaves_collections:
  "(isSubclassed self \<and> methodOverride_parse self = Some f \<and>
    f node expression world = (Inl e, world') \<longrightarrow>
      EngineWrapper_parse X self node expression c world =
        (Inl (IECore_Exception (py_message e)), c, world')) \<and>
   (fst (snd (EngineWrapper_parse X self node expression c world)) \<noteq> c \<longrightarrow>
      isSubclassed self \<and>
      (\<exists>g lists world''. methodOverride_parse self = Some g \<and>
         g node expression world = (Inr lists, world'')))"
proof -
  have unchanged: "EngineWrapper_parse X self node expression c world =
      (Inl (IECore_Exception ''Engine::parse() python method not defined''), c, world)"
    if "\<not> isSubclassed self \<or> methodOverride_parse self = None"
    using that by (cases "isSubclassed self") (simp_all add: EngineWrapper_parse_def parse_try_def)
  have changed: "isSubclassed self \<and>
      (\<exists>g lists world''. methodOverride_parse self = Some g \<and>
         g node expression world = (Inr lists, world''))"
    if neq: "fst (snd (EngineWrapper_parse X self node expression c world)) \<noteq> c"
  proof -
    have sub: "isSubclassed self"
    proof (rule ccontr)
      assume "\<not> isSubclassed self"
      then have "fst (snd (EngineWrapper_parse X self node expression c world)) = c"
        by (simp add: unchanged)
      with neq show False by simp
    qed
    have "methodOverride_parse self \<noteq> None"
    proof
      assume "methodOverride_parse self = None"
      then have "fst (snd (EngineWrapper_parse X self node expression c world)) = c"
        by (simp add: unchanged)
      with neq show False by simp
    qed
    then obtain g where g: "methodOverride_parse self = Some g"
      by blast
    obtain r w where rw: "g node expression world = (r, w)"
      by (cases "g node expression world") auto
    have "\<exists>lists. r = Inr lists"
    proof (cases r)
      case (Inl e)
      with rw have "fst (snd (EngineWrapper_parse X self node expression c world)) = c"
        by (simp add: parse_raises [OF sub g])
      with neq show ?thesis by simp
    next
      case (Inr lists)
      then show ?thesis by blast
    qed
    with sub g rw show ?thesis
      by blast
  qed
  have raised: "isSubclassed self \<and> methodOverride_parse self = Some f \<and>
      f node expression world = (Inl e, world') \<longrightarrow>
        EngineWrapper_parse X self node expression c world =
          (Inl (IECore_Exception (py_message e)), c, world')"
    by (simp add: parse_raises)
  have "fst (snd (EngineWrapper_parse X self node expression c world)) \<noteq> c \<longrightarrow>
      isSubclassed self \<and>
      (\<exists>g lists world''. methodOverride_parse self = Some g \<and>
         g node expression world = (Inr lists, world''))"
    by (rule impI) (rule changed)
  with raised show ?thesis
    by (rule conjI)
qed

theorem failed_parse_leaves_collections_witness:
  "EngineWrapper_parse example_converters raising_engine 3 ''1 +''
     \<lparr>inputs = [7], outputs = [8], contextVariables = [''time'']\<rparr> [] =
     (Inl (IECore_Exception ''invalid syntax''),
      \<lparr>inputs = [7], outputs = [8], contextVariables = [''time'']\<rparr>, [])"
  using failed_parse_leaves_collections [of raising_engine
      "\<lambda>node expression world. (Inl (PyException ''SyntaxError'' ''invalid syntax''), world)"
      3 "''1 +''" "[]" "PyException ''SyntaxError'' ''invalid syntax''" "[]" example_converters
      "\<lparr>inputs = [7], outputs = [8], contextVariables = [''time'']\<rparr>"]
  by (simp add: raising_engine_def)

text \<open>
  C10. \<^verbatim>\<open>parse\<close> returns normally exactly when the Python method exists, returns
  without raising, and every element of its three lists converts. The vectors of the
  caller then hold what they held before, followed by the converted elements of the
  corresponding list in the order of that list: nothing is reordered and no duplicate is
  dropped.
\<close>

theorem successful_parse_appends_in_order:
  "EngineWrapper_parse X self node expression c world = (Inr u, c', world') \<longleftrightarrow>
   isSubclassed self \<and>
   (\<exists>f pythonInputs pythonOutputs pythonContextVariables xs ys zs.
      methodOverride_parse self = Some f \<and>
      f node expression world =
        (Inr (pythonInputs, pythonOutputs, pythonContextVariables), world') \<and>
      map (extract_ValuePlug X) pythonInputs = map Some xs \<and>
      map (extract_ValuePlug X) pythonOutputs = map Some ys \<and>
      map (extract_InternedString X) pythonContextVariables = map Some zs \<and>
      c' = \<lparr>inputs = inputs c @ xs, outputs = outputs c @ ys,
            contextVariables = contextVariables c @ zs\<rparr>)"
proof (cases "isSubclassed self")
  case False
  then show ?thesis by (simp add: EngineWrapper_parse_def)
next
  case True
  obtain r d w where t: "parse_try X self node expression c world = (r, d, w)"
    by (cases "parse_try X self node expression c world") auto
  have "EngineWrapper_parse X self node expression c world = (Inr u, c', world') \<longleftrightarrow>
      parse_try X self node expression c world = (Return u, c', world')"
  proof (cases r)
    case (Return x)
    with True t show ?thesis by (simp add: EngineWrapper_parse_def)
  next
    case (Throw ex)
    with True t show ?thesis
      by (cases ex) (simp_all add: EngineWrapper_parse_def catch_error_already_set_def
          translatePythonException_def)
  next
    case Fallthrough
    with True t show ?thesis by (simp add: EngineWrapper_parse_def)
  qed
  with True show ?thesis
    by (simp only: parse_try_Return simp_thms)
qed


theorem successful_parse_appends_in_order_witness:
  "EngineWrapper_parse example_converters stub_engine 3 ''parent.n.y = parent.n.x''
     \<lparr>inputs = [7], outputs = [8], contextVariables = [''frame'']\<rparr> [] =
     (Inr (),
      \<lparr>inputs = [7, 1], outputs = [8, 2],
       contextVariables = [''frame'', ''frame'', ''frame'']\<rparr>, [])"
proof -
  let ?f = "\<lambda>(node :: Expression_ptr) (expression :: string) (world :: py_state).
    (Inr ([PyValuePlug 1], [PyValuePlug 2], [PyStr ''frame'', PyStr ''frame'']) ::
       py_exception + (py_value list \<times> py_value list \<times> py_value list), world)"
  have "methodOverride_parse stub_engine = Some ?f \<and>
      ?f 3 ''parent.n.y = parent.n.x'' [] =
        (Inr ([PyValuePlug 1], [PyValuePlug 2], [PyStr ''frame'', PyStr ''frame'']), []) \<and>
      map (extract_ValuePlug example_converters) [PyValuePlug 1] = map Some [1] \<and>
      map (extract_ValuePlug example_converters) [PyValuePlug 2] = map Some [2] \<and>
      map (extract_InternedString example_converters) [PyStr ''frame'', PyStr ''frame''] =
        map Some [''frame'', ''frame''] \<and>
      \<lparr>inputs = [7, 1], outputs = [8, 2],
       contextVariables = [''frame'', ''frame'', ''frame'']\<rparr> =
      \<lparr>inputs = inputs \<lparr>inputs = [7], outputs = [8], contextVariables = [''frame'']\<rparr> @ [1],
       outputs = outputs \<lparr>inputs = [7], outputs = [8], contextVariables = [''frame'']\<rparr> @ [2],
       contextVariables =
         contextVariables \<lparr>inputs = [7], outputs = [8], contextVariables = [''frame'']\<rparr> @
         [''frame'', ''frame'']\<rparr>"
    by (simp add: stub_engine_def example_converters_def)
  then have "isSubclassed stub_engine \<and>
    (\<exists>f pythonInputs pythonOutputs pythonContextVariables xs ys zs.
      methodOverride_parse stub_engine = Some f \<and>
      f 3 ''parent.n.y = parent.n.x'' [] =
        (Inr (pythonInputs, pythonOutputs, pythonContextVariables), []) \<and>
      map (extract_ValuePlug example_converters) pythonInputs = map Some xs \<and>
      map (extract_ValuePlug example_converters) pythonOutputs = map Some ys \<and>
      map (extract_InternedString example_converters) pythonContextVariables = map Some zs \<and>
      \<lparr>inputs = [7, 1], outputs = [8, 2],
       contextVariables = [''frame'', ''frame'', ''frame'']\<rparr> =
      \<lparr>inputs = inputs \<lparr>inputs = [7], outputs = [8], contextVariables = [''frame'']\<rparr> @ xs,
       outputs = outputs \<lparr>inputs = [7], outputs = [8], contextVariables = [''frame'']\<rparr> @ ys,
       contextVariables =
         contextVariables \<lparr>inputs = [7], outputs = [8], contextVariables = [''frame'']\<rparr> @
         zs\<rparr>)"
    unfolding stub_engine_def
    by (simp only: EngineWrapper.simps simp_thms) blast
  then show ?thesis
    by (rule successful_parse_appends_in_order [THEN iffD2])
qed

text \<open>
  C4, as the code has it. The claim that \<^verbatim>\<open>execute\<close> never writes fails on the
  wrapper: it strips the \<^verbatim>\<open>const\<close> of the context and of the input plugs and hands
  them to the Python method, and an engine whose method sets a context variable leaves
  the context changed.
\<close>

theorem execute_can_write_the_context:
  "EngineWrapper_execute example_converters context_writing_engine 5 [1] [] =
     (Inr [], [(''frame'', 2)]) \<and>
   snd (EngineWrapper_execute example_converters context_writing_engine 5 [1] []) \<noteq> []"
  by (simp add: EngineWrapper_execute_def execute_try_def context_writing_engine_def
      example_converters_def)

text \<open>
  C4, amended. \<^verbatim>\<open>execute\<close> adds no effect of its own. If the Python method of the
  engine, called on the context and the inputs, leaves the state it can reach unchanged
  (or the engine has no such method), the state after \<^verbatim>\<open>execute\<close> is the state
  before it; and if the outcome of the method is the same in two states, so is the
  outcome of \<^verbatim>\<open>execute\<close>.
\<close>

theorem execute_adds_no_effect:
  "((\<forall>f. methodOverride_execute self = Some f \<longrightarrow>
        snd (f context proxyInputs world) = world) \<longrightarrow>
      snd (EngineWrapper_execute X self context proxyInputs world) = world) \<and>
   ((\<forall>f. methodOverride_execute self = Some f \<longrightarrow>
        fst (f context proxyInputs world) = fst (f context proxyInputs world')) \<longrightarrow>
      fst (EngineWrapper_execute X self context proxyInputs world) =
      fst (EngineWrapper_execute X self context proxyInputs world'))"
  by (simp add: execute_state execute_outcome split: option.splits)

theorem execute_adds_no_effect_witness:
  "snd (EngineWrapper_execute example_converters stub_engine 5 [1] [(''frame'', 1)]) =
     [(''frame'', 1)] \<and>
   fst (EngineWrapper_execute example_converters stub_engine 5 [1] [(''frame'', 1)]) =
   fst (EngineWrapper_execute example_converters stub_engine 5 [1] [(''frame'', 2)])"
  using execute_adds_no_effect [of stub_engine 5 "[1]" "[(''frame'', 1)]" example_converters
      "[(''frame'', 2)]"]
  by (simp add: stub_engine_def)

subsection \<open>The registry\<close>

text \<open>
  C6. In a registry whose identifiers are distinct (the empty registry is, and
  registration keeps it so), after two Python callables are registered in sequence under
  the same identifier, creating an engine for that identifier runs the factory of the
  second callable and nothing else, whatever the first was, and the identifier occurs
  exactly once in \<^verbatim>\<open>registeredEngines()\<close>.
\<close>

theorem second_registration_wins:
  assumes "distinct (Engine_registeredEngines reg)"
  shows "Engine_create
           (EngineWrapper_registerEngine X languageId creator2
              (EngineWrapper_registerEngine X languageId creator1 reg))
           languageId world =
         ExpressionEngineCreator X creator2 world \<and>
         count_list
           (EngineWrapper_registeredEngines
              (EngineWrapper_registerEngine X languageId creator2
                 (EngineWrapper_registerEngine X languageId creator1 reg)))
           languageId = 1"
proof -
  let ?reg1 = "Engine_registerEngine languageId (ExpressionEngineCreator X creator1) reg"
  let ?reg2 = "Engine_registerEngine languageId (ExpressionEngineCreator X creator2) ?reg1"
  have "distinct (map fst ?reg2)"
    using assms by (simp add: Engine_registeredEngines_def distinct_registerEngine)
  moreover have "languageId \<in> set (map fst ?reg2)"
    by (rule registered_after_registerEngine)
  ultimately have "count_list (map fst ?reg2) languageId = 1"
    by (rule count_list_distinct)
  moreover have "map_of ?reg2 languageId = Some (ExpressionEngineCreator X creator2)"
    by (simp add: map_of_registerEngine)
  ultimately show ?thesis
    by (simp add: EngineWrapper_registerEngine_def EngineWrapper_registeredEngines_def
        Engine_registeredEngines_def Engine_create_def append_each_eq)
qed

theorem second_registration_wins_witness:
  "distinct (Engine_registeredEngines
     (EngineWrapper_registerEngine example_converters ''osl'' failing_creator [])) \<and>
   Engine_create
     (EngineWrapper_registerEngine example_converters ''python'' python_creator
        (EngineWrapper_registerEngine example_converters ''python'' failing_creator
           (EngineWrapper_registerEngine example_converters ''osl'' failing_creator [])))
     ''python'' [] = (Inr stub_engine, []) \<and>
   count_list
     (EngineWrapper_registeredEngines
        (EngineWrapper_registerEngine example_converters ''python'' python_creator
           (EngineWrapper_registerEngine example_converters ''python'' failing_creator
              (EngineWrapper_registerEngine example_converters ''osl'' failing_creator []))))
     ''python'' = 1"
proof -
  have d: "distinct (Engine_registeredEngines
     (EngineWrapper_registerEngine example_converters ''osl'' failing_creator []))"
    by (simp add: Engine_registeredEngines_def EngineWrapper_registerEngine_def)
  have c: "ExpressionEngineCreator example_converters python_creator [] = (Inr stub_engine, [])"
    by (simp add: ExpressionEngineCreator_def python_creator_def example_converters_def)
  show ?thesis
    using d c second_registration_wins [OF d, of example_converters "''python''" python_creator
        failing_creator "[]"]
    by simp
qed

text \<open>
  C7. For every registry, \<^verbatim>\<open>Expression.languages()\<close> returns the same sequence of
  identifiers as \<^verbatim>\<open>Engine.registeredEngines()\<close>.
\<close>

theorem languages_is_registeredEngines:
  "languages reg = EngineWrapper_registeredEngines reg"
  by (simp add: languages_def EngineWrapper_registeredEngines_def Expression_languages_def)

subsection \<open>The expression of a node\<close>

text \<open>
  C3. When the language names a registered engine, \<^verbatim>\<open>getExpression()\<close> on the node
  that \<^verbatim>\<open>setExpression( text, language )\<close> leaves returns the pair (text, language),
  whether or not the engine could be created and the text parsed.
\<close>

theorem getExpression_after_setExpression:
  assumes "language \<in> set (Engine_registeredEngines reg)"
  shows "getExpression (fst (snd (setExpression X reg e expression language world))) =
         (expression, language)"
  using assms
  by (simp add: setExpression_def Expression_setExpression_def getExpression_def
      Expression_getExpression_def Let_def split: prod.splits sum.splits)

theorem getExpression_after_setExpression_witness:
  "''python'' \<in> set (Engine_registeredEngines
      (EngineWrapper_registerEngine example_converters ''python'' python_creator [])) \<and>
   getExpression (fst (snd (setExpression example_converters
      (EngineWrapper_registerEngine example_converters ''python'' python_creator [])
      empty_node ''parent.n.y = parent.n.x'' ''python'' []))) =
     (''parent.n.y = parent.n.x'', ''python'')"
proof -
  have r: "''python'' \<in> set (Engine_registeredEngines
      (EngineWrapper_registerEngine example_converters ''python'' python_creator []))"
    by (simp add: Engine_registeredEngines_def EngineWrapper_registerEngine_def)
  show ?thesis
    using r getExpression_after_setExpression [OF r, of example_converters empty_node
        "''parent.n.y = parent.n.x''" "[]"]
    by simp
qed

text \<open>
  C8. Python may leave the language out of \<^verbatim>\<open>setExpression\<close>: the call then behaves
  as the call with the language \<open>python\<close>, for every text.
\<close>

theorem omitted_language_is_python:
  "def_setExpression X reg e expression None world =
   def_setExpression X reg e expression (Some ''python'') world \<and>
   def_setExpression X reg e expression None world =
   setExpression X reg e expression ''python'' world"
  by (simp add: def_setExpression_def)



end
